theory Spec2Isabelle
  imports Complex_Main
begin

section \<open>StockSage front end: search widgets and chart builders\<close>

text \<open>
  The script \<^verbatim>\<open>static/js/main.js\<close> wires two autocomplete inputs (the primary stock
  search and the watchlist-add search) to the lookup endpoint \<^verbatim>\<open>/api/search_stocks\<close>,
  and assembles two Chart.js configurations. The embedding below follows the script
  function by function and keeps its names.

  Conventions of the embedding.
  \<^item> Text is a list of characters (code units); the letters and blanks the script
    inspects are the ASCII ones.
  \<^item> A JavaScript value that may be \<^verbatim>\<open>undefined\<close> is an \<open>option\<close>, with \<open>None\<close> for
    \<^verbatim>\<open>undefined\<close>.
  \<^item> The page holds every element whose id the script looks up without a null check
    (\<^verbatim>\<open>searchDropdown\<close>, \<^verbatim>\<open>watchlistSearchDropdown\<close>, \<^verbatim>\<open>stockSearch\<close>, the form).
  \<^item> Replacing the markup of a dropdown is modelled by the list of \<^verbatim>\<open>.dropdown-item\<close>
    elements that markup denotes when the interpolated values are plain text.
  \<^item> \<open>feather_defined\<close> records whether the Feather icon library is loaded: the script
    tests this before one call of \<^verbatim>\<open>feather.replace\<close> and not before the others.
\<close>

subsection \<open>Strings\<close>

definition is_ws :: "char \<Rightarrow> bool" where
  \<comment> \<open>the ASCII white space and line terminators that \<^verbatim>\<open>String.prototype.trim\<close> strips\<close>
  "is_ws c = (c \<in> set [CHR 0x09, CHR 0x0A, CHR 0x0B, CHR 0x0C, CHR 0x0D, CHR '' ''])"

definition trim :: "string \<Rightarrow> string" where
  "trim s = rev (dropWhile is_ws (rev (dropWhile is_ws s)))"

definition upper_char :: "char \<Rightarrow> char" where
  "upper_char c =
     (case map_of (zip ''abcdefghijklmnopqrstuvwxyz'' ''ABCDEFGHIJKLMNOPQRSTUVWXYZ'') c of
        Some u \<Rightarrow> u
      | None \<Rightarrow> c)"

definition toUpperCase :: "string \<Rightarrow> string" where
  "toUpperCase s = map upper_char s"

definition endsWith :: "string \<Rightarrow> string \<Rightarrow> bool" where
  "endsWith s t = (length t \<le> length s \<and> drop (length s - length t) s = t)"

definition truthy :: "string option \<Rightarrow> bool" where
  \<comment> \<open>JavaScript truthiness of a string-or-undefined value\<close>
  "truthy v = (case v of None \<Rightarrow> False | Some s \<Rightarrow> s \<noteq> [])"

definition to_DOMString :: "string option \<Rightarrow> string" where
  \<comment> \<open>the conversion applied when a value is assigned to \<^verbatim>\<open>input.value\<close>\<close>
  "to_DOMString v = (case v of None \<Rightarrow> ''undefined'' | Some s \<Rightarrow> s)"

subsection \<open>Data model\<close>

record suggestion =
  symbol :: string
  name :: string
  nse_symbol :: string
  bse_symbol :: string

text \<open>
  The children of a dropdown element. Every one of them carries the class
  \<^verbatim>\<open>dropdown-item\<close>; only a search result carries \<^verbatim>\<open>data-symbol\<close>, \<^verbatim>\<open>data-nse\<close>,
  \<^verbatim>\<open>data-bse\<close> and an \<^verbatim>\<open>onclick\<close> handler.
\<close>

datatype row =
    SearchResult string string string string
  | NoStocksFound
  | Searching
  | ErrorSearching

text \<open>An element of the dropdown: its markup and whether its class list holds \<^verbatim>\<open>active\<close>.\<close>

type_synonym item = "row \<times> bool"

fun dataset_symbol :: "row \<Rightarrow> string option" where
  "dataset_symbol (SearchResult sy nm ns bs) = Some sy"
| "dataset_symbol _ = None"

fun dataset_nse :: "row \<Rightarrow> string option" where
  "dataset_nse (SearchResult sy nm ns bs) = Some ns"
| "dataset_nse _ = None"

fun dataset_bse :: "row \<Rightarrow> string option" where
  "dataset_bse (SearchResult sy nm ns bs) = Some bs"
| "dataset_bse _ = None"

datatype js_error =
    FetchFailed
  | Error string
  | SyntaxError
  | ReferenceError string

datatype body = NotJSON | JNull | JArray "suggestion list"

datatype outcome = Rejected | Responded bool body

datatype key = ArrowDown | ArrowUp | Enter | Escape | OtherKey

datatype event =
    Input string
  | KeyDown key
  | ClickItem nat
  | ClickOutside
  | Submit
  | ExchangeChange string
  | Elapse nat
  | Response outcome

text \<open>
  The page as one widget sees it: its own input, dropdown and timer variable, and the
  window-level state the handlers read and write. Each widget has its own instance.
  \<open>timers\<close> holds the pending \<^verbatim>\<open>setTimeout\<close> callbacks of the widget as (id, milliseconds
  left, captured query); \<open>fetches\<close> logs the \<^verbatim>\<open>q\<close> argument of every request sent to
  \<^verbatim>\<open>/api/search_stocks\<close>; \<open>uncaught\<close> logs errors that leave a handler.
\<close>

record page =
  input_value :: string
  dropdown_display :: bool
  dropdown_items :: "item list"
  timeout_var :: "nat option"
  timers :: "(nat \<times> nat \<times> string) list"
  next_timer :: nat
  fetches :: "string list"
  selectedStockSymbol :: "string option"
  selectedExchange :: string
  location_href :: "string option"
  alert_calls :: "(string \<times> string) list"
  submit_loading :: bool
  uncaught :: "js_error list"
  feather_defined :: bool

definition initial_page :: page where
  "initial_page =
     \<lparr> input_value = [], dropdown_display = False, dropdown_items = [],
       timeout_var = None, timers = [], next_timer = 1, fetches = [],
       selectedStockSymbol = Some [], selectedExchange = ''NSE'',
       location_href = None, alert_calls = [], submit_loading = False,
       uncaught = [], feather_defined = True \<rparr>"

subsection \<open>Timers\<close>

text \<open>
  \<^verbatim>\<open>clearTimeout\<close> of an id that is not pending, or of \<^verbatim>\<open>undefined\<close>, does nothing.
  \<^verbatim>\<open>setTimeout\<close> returns a fresh id. When \<open>d\<close> milliseconds pass, the callbacks with at
  most \<open>d\<close> left run (\<open>due\<close>, oldest first) and the others stay (\<open>pending\<close>).
\<close>

definition clearTimeout :: "nat option \<Rightarrow> page \<Rightarrow> page" where
  "clearTimeout h s =
     (case h of
        None \<Rightarrow> s
      | Some i \<Rightarrow> s\<lparr>timers := filter (\<lambda>t. fst t \<noteq> i) (timers s)\<rparr>)"

definition setTimeout :: "string \<Rightarrow> nat \<Rightarrow> page \<Rightarrow> nat \<times> page" where
  "setTimeout q ms s =
     (next_timer s,
      s\<lparr>timers := timers s @ [(next_timer s, ms, q)], next_timer := Suc (next_timer s)\<rparr>)"

definition due :: "nat \<Rightarrow> (nat \<times> nat \<times> string) list \<Rightarrow> string list" where
  "due d ts = map (\<lambda>t. snd (snd t)) (filter (\<lambda>t. fst (snd t) \<le> d) ts)"

definition pending :: "nat \<Rightarrow> (nat \<times> nat \<times> string) list \<Rightarrow> (nat \<times> nat \<times> string) list" where
  "pending d ts =
     map (\<lambda>t. (fst t, fst (snd t) - d, snd (snd t))) (filter (\<lambda>t. \<not> fst (snd t) \<le> d) ts)"

subsection \<open>Primary search widget\<close>

text \<open>
  The functions \<^verbatim>\<open>showSearchDropdown\<close> to \<^verbatim>\<open>showAnalysisLoading\<close> of lines 109-262, on the
  elements \<^verbatim>\<open>searchDropdown\<close> and \<^verbatim>\<open>stockSearch\<close>. \<^verbatim>\<open>hideSearchDropdown\<close> also removes
  \<^verbatim>\<open>active\<close> from every item.
\<close>

definition showSearchDropdown :: "page \<Rightarrow> page" where
  "showSearchDropdown s = s\<lparr>dropdown_display := True\<rparr>"

definition hideSearchDropdown :: "page \<Rightarrow> page" where
  "hideSearchDropdown s =
     s\<lparr>dropdown_display := False,
       dropdown_items := map (\<lambda>it. (fst it, False)) (dropdown_items s)\<rparr>"

definition showSearchLoading :: "page \<Rightarrow> page" where
  "showSearchLoading s = showSearchDropdown (s\<lparr>dropdown_items := [(Searching, False)]\<rparr>)"

definition showSearchError :: "page \<Rightarrow> (js_error \<times> page) + page" where
  "showSearchError s =
     (let s1 = showSearchDropdown (s\<lparr>dropdown_items := [(ErrorSearching, False)]\<rparr>)
      in if feather_defined s1 then Inr s1 else Inl (ReferenceError ''feather'', s1))"

definition result_item :: "suggestion \<Rightarrow> item" where
  "result_item st = (SearchResult (symbol st) (name st) (nse_symbol st) (bse_symbol st), False)"

definition displaySearchResults :: "suggestion list option \<Rightarrow> page \<Rightarrow> page" where
  "displaySearchResults suggestions s =
     (case suggestions of
        None \<Rightarrow> showSearchDropdown (s\<lparr>dropdown_items := [(NoStocksFound, False)]\<rparr>)
      | Some [] \<Rightarrow> showSearchDropdown (s\<lparr>dropdown_items := [(NoStocksFound, False)]\<rparr>)
      | Some sg \<Rightarrow> showSearchDropdown (s\<lparr>dropdown_items := map result_item sg\<rparr>))"

text \<open>
  \<^verbatim>\<open>searchStocks\<close> is an async function. \<open>searchStocks\<close> is the part that runs when it is
  called (up to the \<^verbatim>\<open>await fetch\<close>); \<open>searchStocks_try\<close> is the rest of the \<^verbatim>\<open>try\<close>
  block, run when the request settles; \<open>searchStocks_settled\<close> adds the \<^verbatim>\<open>catch\<close>.
  \<open>Inl\<close> is an error leaving the function (a rejected promise).
\<close>

definition searchStocks :: "string \<Rightarrow> page \<Rightarrow> page" where
  "searchStocks query s = (let s1 = showSearchLoading s in s1\<lparr>fetches := fetches s1 @ [query]\<rparr>)"

definition searchStocks_try :: "outcome \<Rightarrow> page \<Rightarrow> (js_error \<times> page) + page" where
  "searchStocks_try out s =
     (case out of
        Rejected \<Rightarrow> Inl (FetchFailed, s)
      | Responded ok b \<Rightarrow>
          if \<not> ok then Inl (Error ''Failed to fetch search results'', s)
          else (case b of
                  NotJSON \<Rightarrow> Inl (SyntaxError, s)
                | JNull \<Rightarrow> Inr (displaySearchResults None s)
                | JArray sg \<Rightarrow> Inr (displaySearchResults (Some sg) s)))"

definition searchStocks_settled :: "outcome \<Rightarrow> page \<Rightarrow> (js_error \<times> page) + page" where
  "searchStocks_settled out s =
     (case searchStocks_try out s of
        Inr s1 \<Rightarrow> Inr s1
      | Inl (e, s1) \<Rightarrow> showSearchError s1)"

definition selectStock :: "row \<Rightarrow> page \<Rightarrow> page" where
  "selectStock element s =
     (let symb = dataset_symbol element;
          nseSymbol = dataset_nse element;
          bseSymbol = dataset_bse element;
          s1 = s\<lparr>input_value := to_DOMString symb\<rparr>;
          s2 = s1\<lparr>selectedStockSymbol :=
                    (if selectedExchange s1 = ''BSE'' then bseSymbol else nseSymbol)\<rparr>
      in hideSearchDropdown s2)"

text \<open>
  \<open>alert_calls\<close> logs the calls of \<^verbatim>\<open>showAlert\<close> (message, type); the banner's removal after
  five seconds is not modelled.
\<close>

definition showAlert :: "string \<Rightarrow> string \<Rightarrow> page \<Rightarrow> page" where
  "showAlert message type s = s\<lparr>alert_calls := alert_calls s @ [(message, type)]\<rparr>"

definition showAnalysisLoading :: "page \<Rightarrow> page" where
  "showAnalysisLoading s = s\<lparr>submit_loading := True\<rparr>"

definition analyzeSelectedStock :: "page \<Rightarrow> page" where
  "analyzeSelectedStock s =
     (let symb = toUpperCase (trim (input_value s))
      in if symb = [] then showAlert ''Please enter a stock symbol'' ''warning'' s
         else
           let symb1 =
                 (if truthy (selectedStockSymbol s) then to_DOMString (selectedStockSymbol s)
                  else if \<not> endsWith symb ''.NS'' \<and> \<not> endsWith symb ''.BO''
                       then (if selectedExchange s = ''BSE'' then symb @ ''.BO'' else symb @ ''.NS'')
                       else symb)
           in (showAnalysisLoading s)\<lparr>location_href := Some (''/analyze/'' @ symb1)\<rparr>)"

text \<open>
  The listeners that \<^verbatim>\<open>initializeStockSearch\<close> registers (lines 21-105).
  \<open>first_active\<close> is \<^verbatim>\<open>querySelector('.dropdown-item.active')\<close> as an index into the items;
  the next and previous element siblings of an item are its neighbours in the list.
  \<open>search_input v\<close> is the \<^verbatim>\<open>input\<close> listener, run after the user's edit has set the value
  to \<open>v\<close>; \<open>search_keydown\<close> the \<^verbatim>\<open>keydown\<close> listener; \<open>search_click_item i\<close> a click on the
  \<open>i\<close>-th item, which runs the item's \<^verbatim>\<open>onclick\<close> if it has one (the document listener
  then finds the target inside the dropdown and does nothing); \<open>ClickOutside\<close> is a click
  outside both the input and the dropdown; \<open>Submit\<close> the form's \<^verbatim>\<open>submit\<close> listener;
  \<open>search_elapse\<close> the passing of time, which runs the due callbacks; \<open>search_response\<close>
  the settling of a request, after which an error that left \<^verbatim>\<open>searchStocks\<close> is logged as
  uncaught.
\<close>

fun first_active :: "item list \<Rightarrow> nat option" where
  "first_active [] = None"
| "first_active (it # its) =
     (if snd it then Some 0 else map_option Suc (first_active its))"

definition set_active :: "nat \<Rightarrow> bool \<Rightarrow> item list \<Rightarrow> item list" where
  "set_active i b its = (if i < length its then its[i := (fst (its ! i), b)] else its)"

definition search_input :: "string \<Rightarrow> page \<Rightarrow> page" where
  "search_input v s =
     (let s0 = s\<lparr>input_value := v\<rparr>;
          query = trim (input_value s0)
      in if length query < 2 then hideSearchDropdown s0
         else
           let s1 = clearTimeout (timeout_var s0) s0;
               (h, s2) = setTimeout query 300 s1
           in s2\<lparr>timeout_var := Some h\<rparr>)"

definition search_keydown :: "key \<Rightarrow> page \<Rightarrow> page" where
  "search_keydown k s =
     (let activeItem = first_active (dropdown_items s);
          items = dropdown_items s
      in case k of
           ArrowDown \<Rightarrow>
             (case activeItem of
                Some i \<Rightarrow>
                  if Suc i < length items
                  then s\<lparr>dropdown_items := set_active (Suc i) True (set_active i False items)\<rparr>
                  else s
              | None \<Rightarrow>
                  if length items > 0 then s\<lparr>dropdown_items := set_active 0 True items\<rparr> else s)
         | ArrowUp \<Rightarrow>
             (case activeItem of
                Some i \<Rightarrow>
                  if 0 < i
                  then s\<lparr>dropdown_items := set_active (i - 1) True (set_active i False items)\<rparr>
                  else s
              | None \<Rightarrow>
                  if length items > 0
                  then s\<lparr>dropdown_items := set_active (length items - 1) True items\<rparr>
                  else s)
         | Enter \<Rightarrow>
             (case activeItem of
                Some i \<Rightarrow> selectStock (fst (items ! i)) s
              | None \<Rightarrow> analyzeSelectedStock s)
         | Escape \<Rightarrow> hideSearchDropdown s
         | OtherKey \<Rightarrow> s)"

definition search_click_item :: "nat \<Rightarrow> page \<Rightarrow> page" where
  "search_click_item i s =
     (if i < length (dropdown_items s)
      then (case fst (dropdown_items s ! i) of
              SearchResult sy nm ns bs \<Rightarrow> selectStock (SearchResult sy nm ns bs) s
            | _ \<Rightarrow> s)
      else s)"

definition search_elapse :: "nat \<Rightarrow> page \<Rightarrow> page" where
  "search_elapse d s =
     fold searchStocks (due d (timers s)) (s\<lparr>timers := pending d (timers s)\<rparr>)"

definition search_response :: "outcome \<Rightarrow> page \<Rightarrow> page" where
  "search_response out s =
     (case searchStocks_settled out s of
        Inr s1 \<Rightarrow> s1
      | Inl (e, s1) \<Rightarrow> s1\<lparr>uncaught := uncaught s1 @ [e]\<rparr>)"

fun search_step :: "event \<Rightarrow> page \<Rightarrow> page" where
  "search_step (Input v) s = search_input v s"
| "search_step (KeyDown k) s = search_keydown k s"
| "search_step (ClickItem i) s = search_click_item i s"
| "search_step ClickOutside s = hideSearchDropdown s"
| "search_step Submit s = analyzeSelectedStock s"
| "search_step (ExchangeChange v) s = s\<lparr>selectedExchange := v\<rparr>"
| "search_step (Elapse d) s = search_elapse d s"
| "search_step (Response out) s = search_response out s"

definition search_run :: "event list \<Rightarrow> page \<Rightarrow> page" where
  "search_run evs s = fold search_step evs s"

subsection \<open>Watchlist-add search widget\<close>

text \<open>
  The same for \<^verbatim>\<open>initializeWatchlistSearch\<close> and the functions of lines 354-523, on the
  elements \<^verbatim>\<open>watchlistSearchDropdown\<close> and \<^verbatim>\<open>watchlistSymbol\<close> and the local variable
  \<^verbatim>\<open>watchlistTimeout\<close>. \<^verbatim>\<open>searchStocksForWatchlist\<close> shows no loading row, Enter without an
  active item has no branch, and \<^verbatim>\<open>selectWatchlistStock\<close> only fills the input.
\<close>

definition showWatchlistDropdown :: "page \<Rightarrow> page" where
  "showWatchlistDropdown s = s\<lparr>dropdown_display := True\<rparr>"

definition hideWatchlistDropdown :: "page \<Rightarrow> page" where
  "hideWatchlistDropdown s =
     s\<lparr>dropdown_display := False,
       dropdown_items := map (\<lambda>it. (fst it, False)) (dropdown_items s)\<rparr>"

definition showWatchlistSearchError :: "page \<Rightarrow> (js_error \<times> page) + page" where
  "showWatchlistSearchError s =
     (let s1 = showWatchlistDropdown (s\<lparr>dropdown_items := [(ErrorSearching, False)]\<rparr>)
      in if feather_defined s1 then Inr s1 else Inl (ReferenceError ''feather'', s1))"

definition displayWatchlistSearchResults :: "suggestion list option \<Rightarrow> page \<Rightarrow> page" where
  "displayWatchlistSearchResults suggestions s =
     (case suggestions of
        None \<Rightarrow> showWatchlistDropdown (s\<lparr>dropdown_items := [(NoStocksFound, False)]\<rparr>)
      | Some [] \<Rightarrow> showWatchlistDropdown (s\<lparr>dropdown_items := [(NoStocksFound, False)]\<rparr>)
      | Some sg \<Rightarrow> showWatchlistDropdown (s\<lparr>dropdown_items := map result_item sg\<rparr>))"

definition searchStocksForWatchlist :: "string \<Rightarrow> page \<Rightarrow> page" where
  "searchStocksForWatchlist query s = s\<lparr>fetches := fetches s @ [query]\<rparr>"

definition searchStocksForWatchlist_try :: "outcome \<Rightarrow> page \<Rightarrow> (js_error \<times> page) + page" where
  "searchStocksForWatchlist_try out s =
     (case out of
        Rejected \<Rightarrow> Inl (FetchFailed, s)
      | Responded ok b \<Rightarrow>
          if \<not> ok then Inl (Error ''Failed to fetch search results'', s)
          else (case b of
                  NotJSON \<Rightarrow> Inl (SyntaxError, s)
                | JNull \<Rightarrow> Inr (displayWatchlistSearchResults None s)
                | JArray sg \<Rightarrow> Inr (displayWatchlistSearchResults (Some sg) s)))"

definition searchStocksForWatchlist_settled :: "outcome \<Rightarrow> page \<Rightarrow> (js_error \<times> page) + page" where
  "searchStocksForWatchlist_settled out s =
     (case searchStocksForWatchlist_try out s of
        Inr s1 \<Rightarrow> Inr s1
      | Inl (e, s1) \<Rightarrow> showWatchlistSearchError s1)"

definition selectWatchlistStock :: "row \<Rightarrow> page \<Rightarrow> page" where
  "selectWatchlistStock element s =
     (let symb = dataset_symbol element
      in hideWatchlistDropdown (s\<lparr>input_value := to_DOMString symb\<rparr>))"

definition watchlist_input :: "string \<Rightarrow> page \<Rightarrow> page" where
  "watchlist_input v s =
     (let s0 = s\<lparr>input_value := v\<rparr>;
          query = trim (input_value s0)
      in if length query < 2 then hideWatchlistDropdown s0
         else
           let s1 = clearTimeout (timeout_var s0) s0;
               (h, s2) = setTimeout query 300 s1
           in s2\<lparr>timeout_var := Some h\<rparr>)"

definition watchlist_keydown :: "key \<Rightarrow> page \<Rightarrow> page" where
  "watchlist_keydown k s =
     (let activeItem = first_active (dropdown_items s);
          items = dropdown_items s
      in case k of
           ArrowDown \<Rightarrow>
             (case activeItem of
                Some i \<Rightarrow>
                  if Suc i < length items
                  then s\<lparr>dropdown_items := set_active (Suc i) True (set_active i False items)\<rparr>
                  else s
              | None \<Rightarrow>
                  if length items > 0 then s\<lparr>dropdown_items := set_active 0 True items\<rparr> else s)
         | ArrowUp \<Rightarrow>
             (case activeItem of
                Some i \<Rightarrow>
                  if 0 < i
                  then s\<lparr>dropdown_items := set_active (i - 1) True (set_active i False items)\<rparr>
                  else s
              | None \<Rightarrow>
                  if length items > 0
                  then s\<lparr>dropdown_items := set_active (length items - 1) True items\<rparr>
                  else s)
         | Enter \<Rightarrow>
             (case activeItem of
                Some i \<Rightarrow> selectWatchlistStock (fst (items ! i)) s
              | None \<Rightarrow> s)
         | Escape \<Rightarrow> hideWatchlistDropdown s
         | OtherKey \<Rightarrow> s)"

definition watchlist_click_item :: "nat \<Rightarrow> page \<Rightarrow> page" where
  "watchlist_click_item i s =
     (if i < length (dropdown_items s)
      then (case fst (dropdown_items s ! i) of
              SearchResult sy nm ns bs \<Rightarrow> selectWatchlistStock (SearchResult sy nm ns bs) s
            | _ \<Rightarrow> s)
      else s)"

definition watchlist_elapse :: "nat \<Rightarrow> page \<Rightarrow> page" where
  "watchlist_elapse d s =
     fold searchStocksForWatchlist (due d (timers s)) (s\<lparr>timers := pending d (timers s)\<rparr>)"

definition watchlist_response :: "outcome \<Rightarrow> page \<Rightarrow> page" where
  "watchlist_response out s =
     (case searchStocksForWatchlist_settled out s of
        Inr s1 \<Rightarrow> s1
      | Inl (e, s1) \<Rightarrow> s1\<lparr>uncaught := uncaught s1 @ [e]\<rparr>)"

text \<open>
  The script registers no submit and no exchange listener for the watchlist widget, so
  these two events leave its state as it is.
\<close>

fun watchlist_step :: "event \<Rightarrow> page \<Rightarrow> page" where
  "watchlist_step (Input v) s = watchlist_input v s"
| "watchlist_step (KeyDown k) s = watchlist_keydown k s"
| "watchlist_step (ClickItem i) s = watchlist_click_item i s"
| "watchlist_step ClickOutside s = hideWatchlistDropdown s"
| "watchlist_step Submit s = s"
| "watchlist_step (ExchangeChange v) s = s"
| "watchlist_step (Elapse d) s = watchlist_elapse d s"
| "watchlist_step (Response out) s = watchlist_response out s"

definition watchlist_run :: "event list \<Rightarrow> page \<Rightarrow> page" where
  "watchlist_run evs s = fold watchlist_step evs s"

subsection \<open>Chart builders\<close>

text \<open>
  Numbers are rationals (every finite double is one; the script only compares them and
  multiplies by four, which is exact below the overflow threshold), together with the
  value \<^verbatim>\<open>-Infinity\<close> that \<^verbatim>\<open>Math.max\<close> returns when it is given no argument.
\<close>

datatype jsnum = NegInfinity | Number rat

fun Math_max :: "rat list \<Rightarrow> jsnum" where
  "Math_max [] = NegInfinity"
| "Math_max (x # xs) =
     (case Math_max xs of NegInfinity \<Rightarrow> Number x | Number m \<Rightarrow> Number (max x m))"

definition times4 :: "jsnum \<Rightarrow> jsnum" where
  "times4 v = (case v of NegInfinity \<Rightarrow> NegInfinity | Number x \<Rightarrow> Number (x * 4))"

type_synonym series = "rat option list"

record price_data =
  close :: series
  volume :: "rat list option"

record indicator_data =
  ema_9 :: "series option"
  ema_21 :: "series option"
  sma_50 :: "series option"
  sma_200 :: "series option"
  bb_upper :: "series option"
  bb_lower :: "series option"

record chart_data =
  dates :: "string list"
  prices :: price_data
  indicators :: indicator_data

record dataset =
  label :: string
  data :: "series option"
  bar :: bool
  yAxisID :: string

record chart_config =
  labels :: "string list"
  datasets :: "dataset list"
  y_range :: "(rat \<times> rat) option"
  y1_max :: "jsnum option"
  title :: string

datatype canvas_id = PriceCanvas | RSICanvas

record chart =
  chart_id :: nat
  canvas :: canvas_id
  config :: chart_config

text \<open>
  \<open>priceChart\<close> and \<open>rsiChart\<close> are the two module variables (\<open>None\<close> for \<^verbatim>\<open>null\<close>); a
  chart object is named by its id. \<open>live_charts\<close> are the instances created by
  \<^verbatim>\<open>new Chart\<close> and not yet released by \<^verbatim>\<open>destroy\<close>.
\<close>

record chart_manager =
  priceChart :: "nat option"
  rsiChart :: "nat option"
  live_charts :: "chart list"
  next_chart :: nat

definition initial_charts :: chart_manager where
  "initial_charts = \<lparr> priceChart = None, rsiChart = None, live_charts = [], next_chart = 0 \<rparr>"

definition destroy :: "nat \<Rightarrow> chart_manager \<Rightarrow> chart_manager" where
  "destroy c m = m\<lparr>live_charts := filter (\<lambda>x. chart_id x \<noteq> c) (live_charts m)\<rparr>"

definition new_Chart :: "canvas_id \<Rightarrow> chart_config \<Rightarrow> chart_manager \<Rightarrow> nat \<times> chart_manager" where
  "new_Chart cv cfg m =
     (next_chart m,
      m\<lparr>live_charts := live_charts m @ [\<lparr>chart_id = next_chart m, canvas = cv, config = cfg\<rparr>],
        next_chart := Suc (next_chart m)\<rparr>)"

text \<open>
  The configuration objects of lines 566-753 and 769-858, reduced to the parts that
  depend on the payload: labels, data sets, axis bounds and title.
\<close>

definition present :: "series option \<Rightarrow> bool" where
  \<comment> \<open>\<^verbatim>\<open>x && x.length > 0\<close>\<close>
  "present x = (case x of None \<Rightarrow> False | Some xs \<Rightarrow> length xs > 0)"

definition line_dataset :: "string \<Rightarrow> series option \<Rightarrow> dataset" where
  "line_dataset l d = \<lparr>label = l, data = d, bar = False, yAxisID = ''y''\<rparr>"

definition price_datasets :: "chart_data \<Rightarrow> dataset list" where
  "price_datasets chartData =
     (let ind = indicators chartData
      in [line_dataset ''Close Price'' (Some (close (prices chartData)))]
         @ (if present (ema_9 ind) then [line_dataset ''EMA 9'' (ema_9 ind)] else [])
         @ (if present (ema_21 ind) then [line_dataset ''EMA 21'' (ema_21 ind)] else [])
         @ (if present (sma_50 ind) then [line_dataset ''SMA 50'' (sma_50 ind)] else [])
         @ (if present (sma_200 ind) then [line_dataset ''SMA 200'' (sma_200 ind)] else [])
         @ (if present (bb_upper ind)
            then [line_dataset ''BB Upper'' (bb_upper ind), line_dataset ''BB Lower'' (bb_lower ind)]
            else [])
         @ (case volume (prices chartData) of
              None \<Rightarrow> []
            | Some v \<Rightarrow>
                if length v > 0
                then [\<lparr>label = ''Volume'', data = Some (map Some v), bar = True, yAxisID = ''y1''\<rparr>]
                else []))"

definition price_config :: "chart_data \<Rightarrow> string \<Rightarrow> chart_config" where
  "price_config chartData symb =
     \<lparr> labels = dates chartData,
       datasets = price_datasets chartData,
       y_range = None,
       y1_max = Some (times4 (Math_max (case volume (prices chartData) of
                                          None \<Rightarrow> [0]
                                        | Some v \<Rightarrow> v))),
       title = symb @ '' - Price Chart with Technical Indicators'' \<rparr>"

definition rsi_config :: "series \<Rightarrow> string list \<Rightarrow> chart_config" where
  "rsi_config rsiData ds =
     \<lparr> labels = ds,
       datasets = [\<lparr>label = ''RSI'', data = Some rsiData, bar = False, yAxisID = []\<rparr>],
       y_range = Some (0, 100),
       y1_max = None,
       title = ''RSI (Relative Strength Index)'' \<rparr>"

text \<open>
  The first argument of a builder is whether \<^verbatim>\<open>document.getElementById\<close> finds the
  canvas; a payload of \<open>None\<close> is a \<^verbatim>\<open>null\<close> or missing argument.
\<close>

definition initializePriceChart ::
  "bool \<Rightarrow> chart_data option \<Rightarrow> string \<Rightarrow> chart_manager \<Rightarrow> chart_manager" where
  "initializePriceChart ctx chartData symb m =
     (case chartData of
        None \<Rightarrow> m
      | Some cd \<Rightarrow>
          if \<not> ctx then m
          else
            let m1 = (case priceChart m of Some c \<Rightarrow> destroy c m | None \<Rightarrow> m);
                (c, m2) = new_Chart PriceCanvas (price_config cd symb) m1
            in m2\<lparr>priceChart := Some c\<rparr>)"

definition initializeRSIChart ::
  "bool \<Rightarrow> series option \<Rightarrow> string list \<Rightarrow> chart_manager \<Rightarrow> chart_manager" where
  "initializeRSIChart ctx rsiData ds m =
     (case rsiData of
        None \<Rightarrow> m
      | Some rd \<Rightarrow>
          if \<not> ctx then m
          else
            let m1 = (case rsiChart m of Some c \<Rightarrow> destroy c m | None \<Rightarrow> m);
                (c, m2) = new_Chart RSICanvas (rsi_config rd ds) m1
            in m2\<lparr>rsiChart := Some c\<rparr>)"

datatype builder_call =
    PriceChartCall bool "chart_data option" string
  | RSIChartCall bool "series option" "string list"

fun invoke :: "builder_call \<Rightarrow> chart_manager \<Rightarrow> chart_manager" where
  "invoke (PriceChartCall ctx cd symb) m = initializePriceChart ctx cd symb m"
| "invoke (RSIChartCall ctx rd ds) m = initializeRSIChart ctx rd ds m"

definition live_on :: "canvas_id \<Rightarrow> chart_manager \<Rightarrow> chart list" where
  "live_on cv m = filter (\<lambda>c. canvas c = cv) (live_charts m)"

subsection \<open>Notions used by the properties\<close>









text \<open>
  The invariant of the chart builders: live instances have distinct ids below the next
  id, and every live instance of a canvas is the one its module variable holds.
\<close>

definition charts_inv :: "chart_manager \<Rightarrow> bool" where
  "charts_inv m \<longleftrightarrow>
     distinct (map chart_id (live_charts m))
     \<and> (\<forall>c \<in> set (live_charts m).
           chart_id c < next_chart m
           \<and> (canvas c = PriceCanvas \<longrightarrow> priceChart m = Some (chart_id c))
           \<and> (canvas c = RSICanvas \<longrightarrow> rsiChart m = Some (chart_id c)))
     \<and> (\<forall>c. priceChart m = Some c \<longrightarrow> c < next_chart m)
     \<and> (\<forall>c. rsiChart m = Some c \<longrightarrow> c < next_chart m)"

text \<open>Sample data for the concrete instances below.\<close>

definition reliance :: suggestion where
  "reliance = \<lparr> symbol = ''RELIANCE'', name = ''Reliance Industries'',
                nse_symbol = ''RELIANCE.NS'', bse_symbol = ''RELIANCE.BO'' \<rparr>"

definition tcs :: suggestion where
  "tcs = \<lparr> symbol = ''TCS'', name = ''Tata Consultancy Services'',
           nse_symbol = ''TCS.NS'', bse_symbol = ''TCS.BO'' \<rparr>"

definition sample_chart :: chart_data where
  "sample_chart =
     \<lparr> dates = [''2024-01-01'', ''2024-01-02'', ''2024-01-03''],
       prices = \<lparr> close = [Some 100, Some 102, Some 101], volume = Some [100, 250, 50] \<rparr>,
       indicators = \<lparr> ema_9 = Some [None, Some 101, Some 101], ema_21 = None, sma_50 = None,
                      sma_200 = None, bb_upper = None, bb_lower = None \<rparr> \<rparr>"

definition open_dropdown :: page where
  "open_dropdown =
     initial_page\<lparr>dropdown_items := [result_item tcs, (fst (result_item reliance), True)],
                  dropdown_display := True\<rparr>"

section \<open>Properties of the search widgets\<close>

subsection \<open>Auxiliary facts\<close>




lemma selectStock_result:
  "selectStock (SearchResult sy nm ns bs) s =
     s\<lparr>input_value := sy,
       selectedStockSymbol := Some (if selectedExchange s = ''BSE'' then bs else ns),
       dropdown_display := False,
       dropdown_items := map (\<lambda>it. (fst it, False)) (dropdown_items s)\<rparr>"
  by (simp add: selectStock_def hideSearchDropdown_def to_DOMString_def Let_def)








subsection \<open>Short queries and the debounce timer\<close>

text \<open>
  Claim C1. Whenever the trimmed text of a search input is shorter than two characters,
  no request to the lookup endpoint is sent for that widget, not even by a timer armed
  by an earlier, longer query, and the dropdown is hidden.

  The input handler returns for a short query before it reaches \<^verbatim>\<open>clearTimeout\<close>, so
  the timer of the earlier query stays armed. The trace below types \<open>ab\<close>, shortens the
  text to \<open>a\<close> after 100 ms and waits: the request for \<open>ab\<close> is sent and the primary
  dropdown is shown while the input holds \<open>a\<close>.
\<close>

theorem stale_timer_fires_after_short_text:
  "length (trim (input_value
     (search_run [Input ''ab'', Elapse 100, Input ''a'', Elapse 200] initial_page))) < 2
   \<and> fetches (search_run [Input ''ab'', Elapse 100, Input ''a'', Elapse 200] initial_page)
       = [''ab'']
   \<and> dropdown_display
       (search_run [Input ''ab'', Elapse 100, Input ''a'', Elapse 200] initial_page)
   \<and> fetches (watchlist_run [Input ''ab'', Elapse 100, Input ''a'', Elapse 200] initial_page)
       = [''ab'']"
  by code_simp












subsection \<open>Submitting typed text\<close>



subsection \<open>Selecting a row\<close>

text \<open>
  Claim C5. Selecting a result row, by a click on it or by Enter while it is the
  highlighted row, stores the row's BSE symbol as the committed symbol when the selected
  exchange is BSE and its NSE symbol otherwise, puts the row's display symbol into the
  input and closes the dropdown.
\<close>

theorem select_commits_exchange_symbol:
  assumes "fst (dropdown_items s ! i) = SearchResult sy nm ns bs"
    and "(ev = ClickItem i \<and> i < length (dropdown_items s))
         \<or> (ev = KeyDown Enter \<and> first_active (dropdown_items s) = Some i)"
  shows "selectedStockSymbol (search_step ev s)
           = Some (if selectedExchange s = ''BSE'' then bs else ns)
         \<and> input_value (search_step ev s) = sy
         \<and> \<not> dropdown_display (search_step ev s)"
  using assms
  by (auto simp add: search_click_item_def search_keydown_def selectStock_result)

theorem select_commits_exchange_symbol_witness:
  "fst (dropdown_items (open_dropdown\<lparr>selectedExchange := ''BSE''\<rparr>) ! 1)
     = SearchResult ''RELIANCE'' ''Reliance Industries'' ''RELIANCE.NS'' ''RELIANCE.BO''
   \<and> first_active (dropdown_items (open_dropdown\<lparr>selectedExchange := ''BSE''\<rparr>)) = Some 1
   \<and> selectedStockSymbol (search_step (KeyDown Enter) (open_dropdown\<lparr>selectedExchange := ''BSE''\<rparr>))
       = Some ''RELIANCE.BO''
   \<and> input_value (search_step (KeyDown Enter) (open_dropdown\<lparr>selectedExchange := ''BSE''\<rparr>))
       = ''RELIANCE''
   \<and> \<not> dropdown_display (search_step (KeyDown Enter) (open_dropdown\<lparr>selectedExchange := ''BSE''\<rparr>))
   \<and> selectedStockSymbol (search_step (ClickItem 0) open_dropdown) = Some ''TCS.NS''"
proof -
  let ?s = "open_dropdown\<lparr>selectedExchange := ''BSE''\<rparr>"
  have r: "fst (dropdown_items ?s ! 1)
      = SearchResult ''RELIANCE'' ''Reliance Industries'' ''RELIANCE.NS'' ''RELIANCE.BO''"
    by (simp add: open_dropdown_def result_item_def reliance_def)
  have a: "first_active (dropdown_items ?s) = Some 1"
    by (simp add: open_dropdown_def result_item_def)
  have x: "selectedExchange ?s = ''BSE''" by simp
  have r0: "fst (dropdown_items open_dropdown ! 0)
      = SearchResult ''TCS'' ''Tata Consultancy Services'' ''TCS.NS'' ''TCS.BO''"
    by (simp add: open_dropdown_def result_item_def tcs_def)
  have l0: "0 < length (dropdown_items open_dropdown)" by (simp add: open_dropdown_def)
  have x0: "selectedExchange open_dropdown \<noteq> ''BSE''"
    by (simp add: open_dropdown_def initial_page_def)
  from select_commits_exchange_symbol [OF r, of "KeyDown Enter"] a x
  have "selectedStockSymbol (search_step (KeyDown Enter) ?s) = Some ''RELIANCE.BO''
      \<and> input_value (search_step (KeyDown Enter) ?s) = ''RELIANCE''
      \<and> \<not> dropdown_display (search_step (KeyDown Enter) ?s)"
    by simp
  moreover from select_commits_exchange_symbol [OF r0, of "ClickItem 0"] l0 x0
  have "selectedStockSymbol (search_step (ClickItem 0) open_dropdown) = Some ''TCS.NS''"
    by simp
  ultimately show ?thesis using r a by blast
qed

subsection \<open>Lookup outcomes\<close>

lemma lookup_throws_without_feather:
  assumes "\<not> feather_defined s"
  shows "searchStocks_settled Rejected s
         = Inl (ReferenceError ''feather'',
                s\<lparr>dropdown_items := [(ErrorSearching, False)], dropdown_display := True\<rparr>)"
  using assms
  by (simp add: searchStocks_settled_def searchStocks_try_def showSearchError_def
      showSearchDropdown_def Let_def)







subsection \<open>The two widgets compared\<close>











subsection \<open>The committed symbol and later edits\<close>





section \<open>Properties of the chart builders\<close>

lemma charts_inv_initial: "charts_inv initial_charts"
  by (simp add: charts_inv_def initial_charts_def)

lemma distinct_same_length:
  assumes "distinct (map f xs)" and "\<forall>x \<in> set xs. f x = a"
  shows "length xs \<le> 1"
proof (cases xs)
  case Nil
  then show ?thesis by simp
next
  case (Cons x ys)
  show ?thesis
  proof (cases ys)
    case Nil
    with Cons show ?thesis by simp
  next
    case (Cons y zs)
    with \<open>xs = x # ys\<close> assms show ?thesis by auto
  qed
qed

lemma charts_inv_live_on:
  assumes "charts_inv m"
  shows "length (live_on cv m) \<le> 1"
proof -
  let ?h = "case cv of PriceCanvas \<Rightarrow> priceChart m | RSICanvas \<Rightarrow> rsiChart m"
  have d: "distinct (map chart_id (live_on cv m))"
    using assms by (simp add: charts_inv_def live_on_def distinct_map_filter)
  have "\<forall>c \<in> set (live_on cv m). Some (chart_id c) = ?h"
    using assms by (cases cv) (auto simp add: charts_inv_def live_on_def)
  then have "\<forall>c \<in> set (live_on cv m). chart_id c = the ?h"
    by (metis option.sel)
  with d show ?thesis by (rule distinct_same_length)
qed

lemma charts_inv_price:
  assumes "charts_inv m"
  shows "charts_inv (initializePriceChart ctx cd symb m)"
proof (cases "ctx \<and> cd \<noteq> None")
  case False
  then show ?thesis using assms by (auto simp add: initializePriceChart_def split: option.splits)
next
  case True
  then obtain d where cd: "cd = Some d" and ctx: ctx by auto
  show ?thesis
  proof (cases "priceChart m")
    case None
    then show ?thesis
      using assms cd ctx
      by (auto simp add: initializePriceChart_def new_Chart_def charts_inv_def less_Suc_eq)
  next
    case (Some c)
    then show ?thesis
      using assms cd ctx
      by (auto simp add: initializePriceChart_def new_Chart_def destroy_def charts_inv_def
          less_Suc_eq distinct_map_filter)
  qed
qed

lemma charts_inv_rsi:
  assumes "charts_inv m"
  shows "charts_inv (initializeRSIChart ctx rd ds m)"
proof (cases "ctx \<and> rd \<noteq> None")
  case False
  then show ?thesis using assms by (auto simp add: initializeRSIChart_def split: option.splits)
next
  case True
  then obtain d where rd: "rd = Some d" and ctx: ctx by auto
  show ?thesis
  proof (cases "rsiChart m")
    case None
    then show ?thesis
      using assms rd ctx
      by (auto simp add: initializeRSIChart_def new_Chart_def charts_inv_def less_Suc_eq)
  next
    case (Some c)
    then show ?thesis
      using assms rd ctx
      by (auto simp add: initializeRSIChart_def new_Chart_def destroy_def charts_inv_def
          less_Suc_eq distinct_map_filter)
  qed
qed

lemma charts_inv_invoke: "charts_inv m \<Longrightarrow> charts_inv (invoke call m)"
  by (cases call) (simp_all add: charts_inv_price charts_inv_rsi)

lemma charts_inv_fold: "charts_inv m \<Longrightarrow> charts_inv (fold invoke calls m)"
  by (induction calls arbitrary: m) (simp_all add: charts_inv_invoke)

lemma price_rebuild_releases:
  assumes "charts_inv m" and "priceChart m = Some c"
  shows "c \<notin> chart_id ` set (live_charts (initializePriceChart True (Some cd) symb m))"
  using assms
  by (auto simp add: initializePriceChart_def new_Chart_def destroy_def charts_inv_def)

lemma rsi_rebuild_releases:
  assumes "charts_inv m" and "rsiChart m = Some c"
  shows "c \<notin> chart_id ` set (live_charts (initializeRSIChart True (Some rd) ds m))"
  using assms
  by (auto simp add: initializeRSIChart_def new_Chart_def destroy_def charts_inv_def)

lemma Math_max_Max: "v \<noteq> [] \<Longrightarrow> Math_max v = Number (Max (set v))"
proof (induction v)
  case Nil
  then show ?case by simp
next
  case (Cons x xs)
  then show ?case by (cases xs) simp_all
qed

text \<open>
  Claim C7. After every sequence of invocations of the price-chart builder and the
  RSI-chart builder, each canvas has at most one live chart instance; and an accepted
  re-invocation of a builder leaves the instance it had created before released.
\<close>

theorem one_live_chart_per_canvas:
  "length (live_on cv (fold invoke calls initial_charts)) \<le> 1
   \<and> (priceChart (fold invoke calls initial_charts) = Some c \<longrightarrow>
        c \<notin> chart_id ` set (live_charts
               (initializePriceChart True (Some cd) symb (fold invoke calls initial_charts))))
   \<and> (rsiChart (fold invoke calls initial_charts) = Some c \<longrightarrow>
        c \<notin> chart_id ` set (live_charts
               (initializeRSIChart True (Some rd) ds (fold invoke calls initial_charts))))"
proof -
  have inv: "charts_inv (fold invoke calls initial_charts)"
    by (rule charts_inv_fold [OF charts_inv_initial])
  show ?thesis
    using charts_inv_live_on [OF inv, of cv] price_rebuild_releases [OF inv]
      rsi_rebuild_releases [OF inv]
    by blast
qed

theorem one_live_chart_per_canvas_witness:
  "priceChart (fold invoke
      [PriceChartCall True (Some sample_chart) ''TCS'', RSIChartCall True (Some [Some 55]) [''d''],
       PriceChartCall False (Some sample_chart) ''TCS''] initial_charts) = Some 0
   \<and> 0 \<notin> chart_id ` set (live_charts
        (initializePriceChart True (Some sample_chart) ''INFY'' (fold invoke
          [PriceChartCall True (Some sample_chart) ''TCS'',
           RSIChartCall True (Some [Some 55]) [''d''],
           PriceChartCall False (Some sample_chart) ''TCS''] initial_charts)))
   \<and> length (live_on PriceCanvas (fold invoke
        [PriceChartCall True (Some sample_chart) ''TCS'', RSIChartCall True (Some [Some 55]) [''d''],
         PriceChartCall False (Some sample_chart) ''TCS''] initial_charts)) \<le> 1"
proof -
  let ?calls = "[PriceChartCall True (Some sample_chart) ''TCS'',
                 RSIChartCall True (Some [Some 55]) [''d''],
                 PriceChartCall False (Some sample_chart) ''TCS'']"
  have h: "priceChart (fold invoke ?calls initial_charts) = Some 0"
    by (simp add: initializePriceChart_def initializeRSIChart_def new_Chart_def
        initial_charts_def)
  from one_live_chart_per_canvas [of PriceCanvas ?calls 0 sample_chart "''INFY''"] h
  show ?thesis by blast
qed

text \<open>
  Claim C8. For every payload the price-chart builder accepts, the maximum configured
  for the secondary (volume) axis of the chart it creates is four times the largest value
  of the payload's volume sequence, and 0 when the volume field is absent. (For a volume
  field that is present and empty, \<^verbatim>\<open>Math.max\<close> has no argument and the configured value
  is \<^verbatim>\<open>-Infinity\<close>.)
\<close>

theorem volume_axis_is_four_times_peak:
  "y1_max (price_config cd symb) =
     Some (case volume (prices cd) of
             None \<Rightarrow> Number 0
           | Some v \<Rightarrow> if v = [] then NegInfinity else Number (4 * Max (set v)))
   \<and> (\<exists>c \<in> set (live_charts (initializePriceChart True (Some cd) symb m)).
         priceChart (initializePriceChart True (Some cd) symb m) = Some (chart_id c)
         \<and> canvas c = PriceCanvas
         \<and> config c = price_config cd symb)"
  by (auto simp add: price_config_def times4_def Math_max_Max initializePriceChart_def
      new_Chart_def Let_def split: option.splits)

theorem volume_axis_is_four_times_peak_witness:
  "volume (prices sample_chart) = Some [100, 250, 50]
   \<and> y1_max (price_config sample_chart ''TCS'') = Some (Number 1000)"
proof -
  have v: "volume (prices sample_chart) = Some [100, 250, 50]"
    by (simp add: sample_chart_def)
  have m: "Max (set [100, 250, 50 :: rat]) = 250" by simp
  from volume_axis_is_four_times_peak [of sample_chart "''TCS''" initial_charts] v m
  show ?thesis by simp
qed

end
